theory Spec2Isabelle
  imports Main
begin

section \<open>React elements and SVG props\<close>

text \<open>
  The component lives in \<^verbatim>\<open>src/frontend/src/components/icons/GraphIcon.tsx\<close>.
  A JSX expression \<^verbatim>\<open><svg a="b">...</svg>\<close> denotes a React element: a tag, the
  attributes written on it (in source order) and its child elements.

  An attribute value in the source is always a string literal. A caller's props object
  (\<^verbatim>\<open>React.SVGProps<SVGSVGElement>\<close>) may hold any JavaScript value: strings, and
  numbers, handlers, style objects, refs and so on. The latter are kept abstract in the
  type parameter \<open>'x\<close>, so a statement for all props covers every such value, sensible
  or not.
\<close>

datatype 'x js_value = JString string | JOther 'x

text \<open>A props object: its own properties, in insertion order.\<close>

type_synonym 'x SVGProps = "(string \<times> 'x js_value) list"

datatype 'x element =
  Element (elem_type: string) (elem_props: "'x SVGProps") (elem_children: "'x element list")

text \<open>Reading one attribute of an element (\<open>None\<close> when it is not set).\<close>

definition prop_of :: "'x element \<Rightarrow> string \<Rightarrow> 'x js_value option" where
  "prop_of e k = map_of (elem_props e) k"

text \<open>The attributes of an element other than the one named.\<close>

definition props_without :: "string \<Rightarrow> 'x element \<Rightarrow> 'x SVGProps" where
  "props_without k e = filter (\<lambda>kv. fst kv \<noteq> k) (elem_props e)"

section \<open>The component\<close>

text \<open>
  \<^verbatim>\<open>const GraphIcon = (props: React.SVGProps<SVGSVGElement>) => ( <svg ...> ... </svg> );\<close>

  The arrow function has an expression body: one JSX literal. The parameter \<open>props\<close>
  occurs nowhere in it (there is no \<^verbatim>\<open>{...props}\<close> on the \<^verbatim>\<open>svg\<close> tag and no
  \<^verbatim>\<open>{props.x}\<close> attribute), and no other identifier is read.
\<close>

definition GraphIcon :: "'x SVGProps \<Rightarrow> 'x element" where
  "GraphIcon props =
     Element ''svg''
       [(''width'', JString ''24px''), (''height'', JString ''24px''),
        (''strokeWidth'', JString ''1.5''), (''viewBox'', JString ''0 0 24 24''),
        (''fill'', JString ''none''), (''xmlns'', JString ''http://www.w3.org/2000/svg''),
        (''color'', JString ''currentColor'')]
       [Element ''rect''
          [(''width'', JString ''7''), (''height'', JString ''5''), (''rx'', JString ''0.6''),
           (''transform'', JString ''matrix(0 -1 -1 0 22 21)''),
           (''stroke'', JString ''currentColor''), (''strokeWidth'', JString ''1.5'')] [],
        Element ''rect''
          [(''width'', JString ''7''), (''height'', JString ''5''), (''rx'', JString ''0.6''),
           (''transform'', JString ''matrix(0 -1 -1 0 7 15.5)''),
           (''stroke'', JString ''currentColor''), (''strokeWidth'', JString ''1.5'')] [],
        Element ''rect''
          [(''width'', JString ''7''), (''height'', JString ''5''), (''rx'', JString ''0.6''),
           (''transform'', JString ''matrix(0 -1 -1 0 22 10)''),
           (''stroke'', JString ''currentColor''), (''strokeWidth'', JString ''1.5'')] [],
        Element ''path''
          [(''d'', JString ''M17 17.5H13.5C12.3954 17.5 11.5 16.6046 11.5 15.5V8.5C11.5 7.39543 12.3954 6.5 13.5 6.5H17''),
           (''stroke'', JString ''currentColor''), (''strokeWidth'', JString ''1.5'')] [],
        Element ''path''
          [(''d'', JString ''M11.5 12H7''),
           (''stroke'', JString ''currentColor''), (''strokeWidth'', JString ''1.5'')] []]"

section \<open>Invoking the component\<close>

text \<open>
  To speak about effects and failures, one call of the component is a step on the state
  around it. That state holds the contents of the data file
  \<^verbatim>\<open>files/fem_files/sesam/single_beam.xml\<close> and, in \<open>ambient\<close>, everything else that
  outlives a call (module variables, the document, earlier results). A call returns
  either a thrown error or the element, and the state it leaves behind.

  The body of \<open>GraphIcon\<close> has no statement, no assignment, no \<^verbatim>\<open>throw\<close>, no
  \<^verbatim>\<open>await\<close> and no free identifier: it reads nothing from that state and writes
  nothing to it, and none of its branches raises.
\<close>

record 'g world =
  single_beam_xml :: string
  ambient :: 'g

datatype render_error = Thrown string

definition invoke :: "'g world \<Rightarrow> 'x SVGProps \<Rightarrow> (render_error + 'x element) \<times> 'g world" where
  "invoke w props = (Inr (GraphIcon props), w)"

text \<open>A history of calls, one after the other, threading the state: the results and the final state.\<close>

fun invoke_all :: "'g world \<Rightarrow> 'x SVGProps list \<Rightarrow> (render_error + 'x element) list \<times> 'g world" where
  "invoke_all w [] = ([], w)"
| "invoke_all w (p # ps) =
     (let (r, w') = invoke w p; (rs, w'') = invoke_all w' ps in (r # rs, w''))"

section \<open>Properties\<close>

text \<open>
  C2. GraphIcon is a constant function of its props: any two prop sets, the empty one
  included, give the same element tree. The parameter is never read, so nothing a caller
  supplies appears in the output or changes it.
\<close>

theorem GraphIcon_constant:
  "GraphIcon p1 = GraphIcon p2 \<and> GraphIcon p1 = GraphIcon []"
  by (simp add: GraphIcon_def)

text \<open>
  C1. The claim reads: every attribute a caller supplies appears verbatim in the output
  and wins over the built-in default. The component declares the parameter with the type
  of SVG props and then never spreads it onto the \<^verbatim>\<open>svg\<close> tag. Evaluated at a
  supplied width of 32px the output still carries the default 24px; a supplied
  \<^verbatim>\<open>className\<close>, for which there is no default, is absent from the output.
\<close>

theorem GraphIcon_drops_supplied_width:
  "prop_of (GraphIcon [(''width'', JString ''32px'' :: unit js_value)]) ''width''
     = Some (JString ''24px'')
   \<and> prop_of (GraphIcon [(''width'', JString ''32px'' :: unit js_value)]) ''width''
     \<noteq> Some (JString ''32px'')
   \<and> prop_of (GraphIcon [(''className'', JString ''big'' :: unit js_value)]) ''className''
     = None"
  by (simp add: GraphIcon_def prop_of_def)

text \<open>
  C3. With no overrides (the empty props object) the output is the baseline glyph: an
  \<^verbatim>\<open>svg\<close> of width 24px, height 24px, viewBox "0 0 24 24", strokeWidth 1.5, fill none
  and color currentColor (and the SVG namespace, and no further attribute); its children
  are, in this order, three rects and two paths; each rect is 7 by 5 with rx 0.6 and has
  a transform matrix of its own; each path has its outline and the stroke settings; no
  child has children.
\<close>

theorem GraphIcon_baseline:
  "elem_type (GraphIcon []) = ''svg''
   \<and> map fst (elem_props (GraphIcon [])) =
        [''width'', ''height'', ''strokeWidth'', ''viewBox'', ''fill'', ''xmlns'', ''color'']
   \<and> prop_of (GraphIcon []) ''width'' = Some (JString ''24px'')
   \<and> prop_of (GraphIcon []) ''height'' = Some (JString ''24px'')
   \<and> prop_of (GraphIcon []) ''viewBox'' = Some (JString ''0 0 24 24'')
   \<and> prop_of (GraphIcon []) ''strokeWidth'' = Some (JString ''1.5'')
   \<and> prop_of (GraphIcon []) ''fill'' = Some (JString ''none'')
   \<and> prop_of (GraphIcon []) ''xmlns'' = Some (JString ''http://www.w3.org/2000/svg'')
   \<and> prop_of (GraphIcon []) ''color'' = Some (JString ''currentColor'')
   \<and> map elem_type (elem_children (GraphIcon [])) =
        [''rect'', ''rect'', ''rect'', ''path'', ''path'']
   \<and> map (\<lambda>c. (prop_of c ''width'', prop_of c ''height'', prop_of c ''rx''))
         (take 3 (elem_children (GraphIcon []))) =
        replicate 3 (Some (JString ''7''), Some (JString ''5''), Some (JString ''0.6''))
   \<and> map (\<lambda>c. prop_of c ''transform'') (take 3 (elem_children (GraphIcon []))) =
        [Some (JString ''matrix(0 -1 -1 0 22 21)''),
         Some (JString ''matrix(0 -1 -1 0 7 15.5)''),
         Some (JString ''matrix(0 -1 -1 0 22 10)'')]
   \<and> distinct (map (\<lambda>c. prop_of c ''transform'') (take 3 (elem_children (GraphIcon []))))
   \<and> map (\<lambda>c. prop_of c ''d'') (drop 3 (elem_children (GraphIcon []))) =
        [Some (JString ''M17 17.5H13.5C12.3954 17.5 11.5 16.6046 11.5 15.5V8.5C11.5 7.39543 12.3954 6.5 13.5 6.5H17''),
         Some (JString ''M11.5 12H7'')]
   \<and> map (\<lambda>c. (prop_of c ''stroke'', prop_of c ''strokeWidth''))
         (drop 3 (elem_children (GraphIcon []))) =
        replicate 2 (Some (JString ''currentColor''), Some (JString ''1.5''))
   \<and> map elem_children (elem_children (GraphIcon [])) = replicate 5 []"
  by (simp add: GraphIcon_def prop_of_def eval_nat_numeral)

text \<open>
  C4. GraphIcon is deterministic: two calls with the same props return the same result,
  whatever the state around each of the two calls is.
\<close>

theorem GraphIcon_deterministic:
  "fst (invoke w1 props) = fst (invoke w2 props)"
  by (simp add: invoke_def)

text \<open>
  C5. GraphIcon cannot fail: for every props object, whatever values it holds (the
  abstract \<open>JOther\<close> values included), a call returns an element and never a thrown error.
\<close>

theorem GraphIcon_never_fails:
  "(\<exists>el. fst (invoke w props) = Inr el) \<and> (\<forall>err. fst (invoke w props) \<noteq> Inl err)"
  by (simp add: invoke_def)

text \<open>A history of calls returns each call's element and leaves the state as it found it.\<close>

lemma invoke_all_eq: "invoke_all w ps = (map (\<lambda>p. Inr (GraphIcon p)) ps, w)"
  by (induction ps arbitrary: w) (simp_all add: invoke_def)

text \<open>
  C6. GraphIcon is pure and stateless: one call leaves the state outside its result
  unchanged, and so does any history of calls; after any history, a call returns what a
  first call from the initial state returns for the same props, and the results of the
  earlier calls are what they were.
\<close>

theorem GraphIcon_pure_stateless:
  "snd (invoke w props) = w
   \<and> snd (invoke_all w history) = w
   \<and> fst (invoke (snd (invoke_all w history)) props) = fst (invoke w props)
   \<and> fst (invoke_all w (history @ [props])) = fst (invoke_all w history) @ [fst (invoke w props)]"
  by (simp add: invoke_all_eq invoke_def)

text \<open>
  C7. The XML data file cannot influence the component: with any two contents of
  \<^verbatim>\<open>files/fem_files/sesam/single_beam.xml\<close> and everything else equal, a call returns
  the same result; and the call leaves the file's contents as they were.
\<close>

theorem GraphIcon_ignores_single_beam_xml:
  "fst (invoke (w\<lparr>single_beam_xml := xml1\<rparr>) props)
     = fst (invoke (w\<lparr>single_beam_xml := xml2\<rparr>) props)
   \<and> single_beam_xml (snd (invoke (w\<lparr>single_beam_xml := xml1\<rparr>) props)) = xml1"
  by (simp add: invoke_def)

text \<open>
  C8. Every child of the output, rect or path, has stroke currentColor and strokeWidth
  1.5. Every rect has width 7, height 5 and rx 0.6, and with its transform left out its
  attributes are the same fixed list: the rects differ in their transform only. There
  are three rects, with three different transforms.
\<close>

theorem GraphIcon_rects_uniform:
  "(\<forall>c \<in> set (elem_children (GraphIcon props)).
      prop_of c ''stroke'' = Some (JString ''currentColor'')
      \<and> prop_of c ''strokeWidth'' = Some (JString ''1.5'')
      \<and> (elem_type c = ''rect'' \<longrightarrow>
           prop_of c ''width'' = Some (JString ''7'')
           \<and> prop_of c ''height'' = Some (JString ''5'')
           \<and> prop_of c ''rx'' = Some (JString ''0.6'')
           \<and> props_without ''transform'' c =
               [(''width'', JString ''7''), (''height'', JString ''5''),
                (''rx'', JString ''0.6''), (''stroke'', JString ''currentColor''),
                (''strokeWidth'', JString ''1.5'')]))
   \<and> length (filter (\<lambda>c. elem_type c = ''rect'') (elem_children (GraphIcon props))) = 3
   \<and> distinct (map (\<lambda>c. prop_of c ''transform'')
        (filter (\<lambda>c. elem_type c = ''rect'') (elem_children (GraphIcon props))))"
  by (simp add: GraphIcon_def prop_of_def props_without_def)

text \<open>
  The second child of the output for the empty props is one of the rects: it is a child,
  its tag is \<^verbatim>\<open>rect\<close>, and the uniform attributes follow for it.
\<close>

theorem GraphIcon_rects_uniform_witness:
  "elem_children (GraphIcon ([] :: unit SVGProps)) ! 1 \<in> set (elem_children (GraphIcon []))
   \<and> elem_type (elem_children (GraphIcon ([] :: unit SVGProps)) ! 1) = ''rect''
   \<and> prop_of (elem_children (GraphIcon ([] :: unit SVGProps)) ! 1) ''transform''
       = Some (JString ''matrix(0 -1 -1 0 7 15.5)'')
   \<and> prop_of (elem_children (GraphIcon ([] :: unit SVGProps)) ! 1) ''stroke''
       = Some (JString ''currentColor'')
   \<and> prop_of (elem_children (GraphIcon ([] :: unit SVGProps)) ! 1) ''strokeWidth''
       = Some (JString ''1.5'')
   \<and> prop_of (elem_children (GraphIcon ([] :: unit SVGProps)) ! 1) ''width''
       = Some (JString ''7'')
   \<and> props_without ''transform'' (elem_children (GraphIcon ([] :: unit SVGProps)) ! 1) =
        [(''width'', JString ''7''), (''height'', JString ''5''), (''rx'', JString ''0.6''),
         (''stroke'', JString ''currentColor''), (''strokeWidth'', JString ''1.5'')]"
proof -
  let ?r = "elem_children (GraphIcon ([] :: unit SVGProps)) ! 1"
  have mem: "?r \<in> set (elem_children (GraphIcon []))"
    by (simp add: GraphIcon_def)
  have rect: "elem_type ?r = ''rect''"
    by (simp add: GraphIcon_def)
  have tr: "prop_of ?r ''transform'' = Some (JString ''matrix(0 -1 -1 0 7 15.5)'')"
    by (simp add: GraphIcon_def prop_of_def)
  from GraphIcon_rects_uniform [of "[]", THEN conjunct1, rule_format, OF mem] rect mem tr
  show ?thesis by blast
qed

end
